theory Spec2Isabelle
  imports Main
begin

section \<open>Data model\<close>

text \<open>
  The program is a single Go file, \<^verbatim>\<open>main.go\<close>. Go strings are byte sequences, and so
  is \<^typ>\<open>string\<close>. Errors are carried by their message.
\<close>

type_synonym error = string

text \<open>The struct \<^verbatim>\<open>config\<close>, filled once by \<^verbatim>\<open>setup\<close>.\<close>

record config =
  ImportPrefix :: string
  VCS :: string
  RepoRoot :: string
  RedirectURL :: string
  ListenAddress :: string
  TLSListenAddress :: string
  PublicTLSAddress :: string
  TLS :: bool

text \<open>
  The struct \<^verbatim>\<open>context\<close> embeds \<^verbatim>\<open>config\<close> and adds \<^verbatim>\<open>RepoName\<close> and a
  \<^verbatim>\<open>RedirectURL\<close> of its own, which hides the embedded one: in the template,
  \<^verbatim>\<open>.RedirectURL\<close> is \<open>context'.RedirectURL\<close>, while \<^verbatim>\<open>.ImportPrefix\<close>, \<^verbatim>\<open>.VCS\<close> and
  \<^verbatim>\<open>.RepoRoot\<close> are promoted from the embedded struct.
\<close>

record context' = config +
  RepoName :: string
  RedirectURL :: string

text \<open>
  The parts of \<^verbatim>\<open>net/url.URL\<close> and \<^verbatim>\<open>net/http.Request\<close> that exist in the Go release the
  Makefile pins (1.6). \<open>TLS\<close> of a request is \<open>None\<close> for Go's \<^verbatim>\<open>nil\<close>; the connection
  state itself is never inspected, so it is a number standing for it.
\<close>

record userinfo =
  username :: string
  password :: string
  passwordSet :: bool

record url =
  Scheme :: string
  Opaque :: string
  User :: "userinfo option"
  Host :: string
  Path :: string
  RawPath :: string
  RawQuery :: string
  Fragment :: string

record request =
  Method :: string
  URL :: url
  Host :: string
  TLS :: "nat option"

section \<open>Library functions the handlers call\<close>

subsection \<open>\<^verbatim>\<open>strings.Split\<close>\<close>

text \<open>
  \<^verbatim>\<open>strings.Split(s, sep)\<close> for a separator of one byte, the only use in the program:
  the pieces of \<open>s\<close> between the occurrences of \<open>sep\<close>, one more than there are
  occurrences, so the result is never empty.
\<close>

fun strings_Split :: "string \<Rightarrow> char \<Rightarrow> string list" where
  "strings_Split [] sep = [[]]"
| "strings_Split (c # cs) sep =
     (if c = sep then [] # strings_Split cs sep
      else (case strings_Split cs sep of
              [] \<Rightarrow> [[c]]
            | p # ps \<Rightarrow> (c # p) # ps))"

subsection \<open>The escapers of \<^verbatim>\<open>html/template\<close>\<close>

text \<open>
  \<^verbatim>\<open>html/template\<close> rewrites every action of a template with the escapers its position in
  the document calls for. The three that occur here are modelled after the library of
  Go 1.6, on plain (untyped) string values.

  \<^verbatim>\<open>htmlReplacementTable\<close>: the replacement of a byte inside a quoted attribute value;
  the empty string stands for ``no replacement'', as in the Go table. NUL becomes U+FFFD
  (three bytes in UTF-8). Every entry is for an ASCII byte, and a byte of a multi-byte
  rune is never ASCII, so working on bytes agrees with Go's rune loop.
\<close>

definition htmlReplacementTable :: "char \<Rightarrow> string" where
  "htmlReplacementTable c =
     (if c = CHR 0x00 then [CHR 0xEF, CHR 0xBF, CHR 0xBD]
      else if c = CHR 0x22 then ''&#34;''
      else if c = CHR ''&'' then ''&amp;''
      else if c = CHR 0x27 then ''&#39;''
      else if c = CHR ''+'' then ''&#43;''
      else if c = CHR ''<'' then ''&lt;''
      else if c = CHR ''>'' then ''&gt;''
      else [])"

definition htmlReplacer :: "string \<Rightarrow> string" where
  "htmlReplacer s =
     concat (map (\<lambda>c. if htmlReplacementTable c = [] then [c] else htmlReplacementTable c) s)"

definition attrEscaper :: "string \<Rightarrow> string" where
  "attrEscaper s = htmlReplacer s"

text \<open>
  \<^verbatim>\<open>urlFilter\<close>: a value with a scheme (a colon before any slash) other than http, https
  or mailto is replaced by \<^verbatim>\<open>#ZgotmplZ\<close>. The scheme is compared after
  \<^verbatim>\<open>strings.ToLower\<close>; \<open>ToLower\<close> below lowers the ASCII letters and the two runes outside
  ASCII whose lower case is an ASCII letter (U+0130 to \<open>i\<close>, U+212A to \<open>k\<close>), which is
  all a comparison with an ASCII word can observe.
\<close>

definition isUpper :: "char \<Rightarrow> bool" where
  "isUpper c = (of_char (CHR ''A'') \<le> (of_char c :: nat) \<and> (of_char c :: nat) \<le> of_char (CHR ''Z''))"

definition isLower :: "char \<Rightarrow> bool" where
  "isLower c = (of_char (CHR ''a'') \<le> (of_char c :: nat) \<and> (of_char c :: nat) \<le> of_char (CHR ''z''))"

definition isDigit :: "char \<Rightarrow> bool" where
  "isDigit c = (of_char (CHR ''0'') \<le> (of_char c :: nat) \<and> (of_char c :: nat) \<le> of_char (CHR ''9''))"

fun ToLower :: "string \<Rightarrow> string" where
  "ToLower [] = []"
| "ToLower (c # cs) =
     (if c = CHR 0xC4 \<and> take 1 cs = [CHR 0xB0] then CHR ''i'' # ToLower (drop 1 cs)
      else if c = CHR 0xE2 \<and> take 2 cs = [CHR 0x84, CHR 0xAA] then CHR ''k'' # ToLower (drop 2 cs)
      else if isUpper c then char_of (of_char c + (32 :: nat)) # ToLower cs
      else c # ToLower cs)"

definition filterFailsafe :: string where
  "filterFailsafe = ''ZgotmplZ''"

definition urlFilter :: "string \<Rightarrow> string" where
  "urlFilter s =
     (let protocol = takeWhile (\<lambda>c. c \<noteq> CHR '':'') s in
      if CHR '':'' \<in> set s \<and> CHR ''/'' \<notin> set protocol
         \<and> ToLower protocol \<noteq> ''http'' \<and> ToLower protocol \<noteq> ''https''
         \<and> ToLower protocol \<noteq> ''mailto''
      then ''#'' @ filterFailsafe
      else s)"

text \<open>
  \<^verbatim>\<open>urlNormalizer\<close>: reserved and unreserved bytes and valid percent escapes stay, every
  other byte \<open>c\<close> becomes \<^verbatim>\<open>%xx\<close> (two lower-case hexadecimal digits).
\<close>

definition isHex :: "char \<Rightarrow> bool" where
  "isHex c = (isDigit c
     \<or> (of_char (CHR ''a'') \<le> (of_char c :: nat) \<and> (of_char c :: nat) \<le> of_char (CHR ''f''))
     \<or> (of_char (CHR ''A'') \<le> (of_char c :: nat) \<and> (of_char c :: nat) \<le> of_char (CHR ''F'')))"

definition hexDigit :: "nat \<Rightarrow> char" where
  "hexDigit n = ''0123456789abcdef'' ! (n mod 16)"

definition percentEncode :: "char \<Rightarrow> string" where
  "percentEncode c = [CHR ''%'', hexDigit (of_char c div 16), hexDigit (of_char c mod 16)]"

definition urlKeeps :: "char \<Rightarrow> string \<Rightarrow> bool" where
  "urlKeeps c rest =
     (c \<in> set ''!#$&*+,/:;=?@[]''
      \<or> c \<in> set ''-._~''
      \<or> (c = CHR ''%'' \<and> 2 \<le> length rest \<and> isHex (rest ! 0) \<and> isHex (rest ! 1))
      \<or> isLower c \<or> isUpper c \<or> isDigit c)"

fun urlNormalizer :: "string \<Rightarrow> string" where
  "urlNormalizer [] = []"
| "urlNormalizer (c # cs) =
     (if urlKeeps c cs then [c] else percentEncode c) @ urlNormalizer cs"

subsection \<open>The template\<close>

text \<open>
  The constant \<^verbatim>\<open>tpl\<close> as \<^verbatim>\<open>html/template\<close> executes it: text nodes, written as they
  are, and actions, each a field of the context followed by the escapers of its position.
  All five actions of the go-import tag and the action of the refresh tag stand in the
  double-quoted value of a \<^verbatim>\<open>content\<close> attribute, where the library adds the attribute
  escaper; the last action stands in a double-quoted \<^verbatim>\<open>href\<close>, where it adds the URL
  filter, the URL normalizer and the attribute escaper.
\<close>

datatype escaper = urlfilter | urlnormalizer | attrescaper

fun escape :: "escaper \<Rightarrow> string \<Rightarrow> string" where
  "escape urlfilter s = urlFilter s"
| "escape urlnormalizer s = urlNormalizer s"
| "escape attrescaper s = attrEscaper s"

datatype node = TextNode string | ActionNode "context' \<Rightarrow> string" "escaper list"

definition text_head :: string where
  \<open>text_head = ''<!DOCTYPE html>\<newline><html>\<newline><head>\<newline><meta http-equiv="Content-Type" content="text/html; charset=utf-8"/>\<newline><meta name="go-import" content="''\<close>

definition refresh_open :: string where
  \<open>refresh_open = ''" >\<newline><meta http-equiv="refresh" content="''\<close>

definition text_refresh :: string where
  "text_refresh = refresh_open @ ''0; url=''"

definition text_link :: string where
  \<open>text_link = ''">\<newline></head>\<newline><body>\<newline>Nothing to see here; <a href="''\<close>

definition text_tail :: string where
  \<open>text_tail = ''">move along</a>.\<newline></body>\<newline></html>\<newline>''\<close>

definition tpl :: "node list" where
  "tpl =
    [TextNode text_head,
     ActionNode ImportPrefix [attrescaper],
     TextNode ''/'',
     ActionNode RepoName [attrescaper],
     TextNode '' '',
     ActionNode VCS [attrescaper],
     TextNode '' '',
     ActionNode RepoRoot [attrescaper],
     TextNode ''/'',
     ActionNode RepoName [attrescaper],
     TextNode text_refresh,
     ActionNode context'.RedirectURL [attrescaper],
     TextNode text_link,
     ActionNode context'.RedirectURL [urlfilter, urlnormalizer, attrescaper],
     TextNode text_tail]"

fun execNode :: "context' \<Rightarrow> node \<Rightarrow> string" where
  "execNode ctx (TextNode t) = t"
| "execNode ctx (ActionNode field pipeline) = fold escape pipeline (field ctx)"

section \<open>The request handler\<close>

text \<open>
  A handler is modelled by the calls it makes on its \<^verbatim>\<open>http.ResponseWriter\<close>, in order.
  \<^verbatim>\<open>http.Error\<close> and \<^verbatim>\<open>http.Redirect\<close> are library calls and stay calls.
\<close>

datatype call =
    Header_Set string string
  | Write string
  | http_Error string nat
  | http_Redirect string nat

text \<open>
  \<^verbatim>\<open>html.ExecuteTemplate(w, htmlTplName, ctx)\<close> writes the nodes one after the other. Every
  field the template names exists and is a string, so execution can only fail when a write
  to the connection fails; writes are taken to succeed, and the branch of the handler that
  logs such an error does not appear.
\<close>

definition ExecuteTemplate :: "node list \<Rightarrow> context' \<Rightarrow> call list" where
  "ExecuteTemplate t ctx = map (\<lambda>n. Write (execNode ctx n)) t"

text \<open>
  The first half of the closure returned by \<^verbatim>\<open>handler()\<close>: the context of one request.
  \<^verbatim>\<open>pkg[1]\<close> is read only under \<^verbatim>\<open>len(pkg) > 1\<close>.
\<close>

definition handler_context :: "config \<Rightarrow> request \<Rightarrow> context'" where
  "handler_context cfg r =
     (let ctx = config.extend cfg (context'.fields [] (config.RedirectURL cfg));
          pkg = strings_Split (Path (URL r)) (CHR ''/'')
      in if length pkg > 1 then
           (let ctx = ctx\<lparr>RepoName := pkg ! 1\<rparr>
            in if length (config.RedirectURL cfg) = 0
               then ctx\<lparr>context'.RedirectURL := RepoRoot ctx @ ''/'' @ pkg ! 1\<rparr>
               else ctx)
         else ctx)"

definition handler :: "config \<Rightarrow> request \<Rightarrow> call list" where
  "handler cfg r =
     Header_Set ''Content-Type'' ''text/html; charset=utf-8''
       # ExecuteTemplate tpl (handler_context cfg r)"

text \<open>What the client receives as the body: everything written, in order.\<close>

fun response_body :: "call list \<Rightarrow> string" where
  "response_body [] = []"
| "response_body (Write s # cs) = s @ response_body cs"
| "response_body (c # cs) = response_body cs"

text \<open>
  Reading the three attribute values back from a rendered document, along the fixed text
  of the template: the value of an attribute ends at the next double quote.
\<close>

definition attr_value :: "string \<Rightarrow> string" where
  "attr_value s = takeWhile (\<lambda>c. c \<noteq> CHR 0x22) s"


definition go_import_content :: "string \<Rightarrow> string" where
  "go_import_content body = attr_value (drop (length text_head) body)"



text \<open>
  The bytes the attribute escaper replaces, and the values on which the whole pipeline of
  the \<^verbatim>\<open>href\<close> action is the identity: an http or https URL made of letters, digits and
  the punctuation that both the normalizer and the attribute escaper keep.
\<close>

definition htmlSpecial :: "char \<Rightarrow> bool" where
  "htmlSpecial c = (c \<in> set [CHR 0x00, CHR 0x22, CHR ''&'', CHR 0x27, CHR ''+'', CHR ''<'', CHR ''>''])"

definition htmlPlain :: "string \<Rightarrow> bool" where
  "htmlPlain s = (\<forall>c \<in> set s. \<not> htmlSpecial c)"



section \<open>The plaintext redirect handler\<close>

text \<open>
  \<^verbatim>\<open>u.String()\<close> is \<^verbatim>\<open>net/url\<close>'s rendering of a URL; the handler only hands its result on,
  so the rendering is a parameter. \<^verbatim>\<open>u\<close> is the request's own URL (a pointer), with
  \<^verbatim>\<open>Host\<close> and then \<^verbatim>\<open>Scheme\<close> overwritten. There is no \<^verbatim>\<open>return\<close> after \<^verbatim>\<open>http.Error\<close>.
\<close>

definition redirectHTTP :: "(url \<Rightarrow> string) \<Rightarrow> config \<Rightarrow> request \<Rightarrow> call list" where
  "redirectHTTP URL_String cfg r =
     (if request.TLS r \<noteq> None \<or> request.Host r = [] then [http_Error ''not found'' 404] else [])
     @ (let u = URL r;
            u = u\<lparr>url.Host := PublicTLSAddress cfg\<rparr>;
            u = u\<lparr>Scheme := ''https''\<rparr>
        in [http_Redirect (URL_String u) 302])"

text \<open>
  The status line of the response: \<^verbatim>\<open>net/http\<close> sends the header once, at the first call
  that writes it (a first \<^verbatim>\<open>Write\<close> sends 200), and ignores every later status.
\<close>

fun response_status :: "call list \<Rightarrow> nat" where
  "response_status [] = 200"
| "response_status (Header_Set k v # cs) = response_status cs"
| "response_status (Write s # cs) = 200"
| "response_status (http_Error msg code # cs) = code"
| "response_status (http_Redirect target code # cs) = code"

section \<open>Startup and listeners\<close>

text \<open>
  The values \<^verbatim>\<open>cli.Context\<close> yields for the flags that \<^verbatim>\<open>setup\<close> reads.
\<close>

record flags =
  import_prefix :: string
  vcs :: string
  repo_root :: string
  redirect_url :: string
  tls_listen_address :: string
  listen_address :: string
  cache_file :: string
  email :: string
  public_tls_address :: string
  no_tls :: bool

text \<open>
  What the outside world answers to the calls of \<^verbatim>\<open>setup\<close> and \<^verbatim>\<open>run\<close>. For a call that
  returns an \<^verbatim>\<open>error\<close> at once (\<^verbatim>\<open>manager.CacheFile\<close>, \<^verbatim>\<open>manager.Register\<close>, \<^verbatim>\<open>net.Listen\<close>,
  \<^verbatim>\<open>l.Close\<close>), \<open>None\<close> is \<^verbatim>\<open>nil\<close>. For a call that serves (\<^verbatim>\<open>http.Serve\<close>,
  \<^verbatim>\<open>http.ListenAndServe\<close>, \<^verbatim>\<open>srv.ListenAndServeTLS\<close>), which returns only with an error,
  \<open>None\<close> is ``keeps serving and never returns''.
\<close>

record world =
  CacheFile_result :: "string \<Rightarrow> error option"
  Register_result :: "string \<Rightarrow> error option"
  Listen_result :: "string \<Rightarrow> error option"
  Serve_result :: "string \<Rightarrow> error option"
  ListenAndServe_result :: "string \<Rightarrow> error option"
  ListenAndServeTLS_result :: "string \<Rightarrow> error option"
  Close_result :: "string \<Rightarrow> error option"

text \<open>
  The calls of the process, in order. A listener obtained from \<^verbatim>\<open>net.Listen\<close> is named by
  its address. \<open>the_handler\<close> stands for the value of \<^verbatim>\<open>handler()\<close>, \<open>the_redirectHTTP\<close>
  for \<^verbatim>\<open>http.HandlerFunc(redirectHTTP)\<close>.
\<close>

datatype installed = the_handler | the_redirectHTTP

datatype event =
    manager_CacheFile string
  | manager_Register string
  | log_Printf string
  | net_Listen string
  | http_Serve string installed
  | http_ListenAndServe string installed
  | srv_ListenAndServeTLS string installed
  | l_Close string

text \<open>
  \<^verbatim>\<open>setup\<close> (here \<open>setup'\<close>) stores the configuration in the global \<^verbatim>\<open>cfg\<close> (the second
  component) and returns an error or \<^verbatim>\<open>nil\<close> (the third).
\<close>

definition setup' :: "world \<Rightarrow> flags \<Rightarrow> event list \<times> config \<times> error option" where
  "setup' w c =
     (let cfg = \<lparr>ImportPrefix = import_prefix c,
                 VCS = vcs c,
                 RepoRoot = repo_root c,
                 RedirectURL = redirect_url c,
                 ListenAddress = listen_address c,
                 TLSListenAddress = tls_listen_address c,
                 PublicTLSAddress = public_tls_address c,
                 TLS = (\<not> no_tls c)\<rparr>
      in if config.TLS cfg then
           (case CacheFile_result w (cache_file c) of
              Some err \<Rightarrow> ([manager_CacheFile (cache_file c)], cfg, Some err)
            | None \<Rightarrow>
                if length (email c) > 0 then
                  (case Register_result w (email c) of
                     Some err \<Rightarrow>
                       ([manager_CacheFile (cache_file c), manager_Register (email c)], cfg, Some err)
                   | None \<Rightarrow>
                       ([manager_CacheFile (cache_file c), manager_Register (email c)], cfg, None))
                else ([manager_CacheFile (cache_file c)], cfg, None))
         else ([], cfg, None))"

definition serveHTTPS :: "world \<Rightarrow> config \<Rightarrow> event list \<times> error option" where
  "serveHTTPS w cfg =
     ([log_Printf (''listening for tls at '' @ TLSListenAddress cfg),
       srv_ListenAndServeTLS (TLSListenAddress cfg) the_handler],
      ListenAndServeTLS_result w (TLSListenAddress cfg))"

text \<open>
  \<^verbatim>\<open>run\<close> yields the calls of the main goroutine, the calls of the goroutine it starts,
  and what it returns (\<open>None\<close>: it does not return, the server keeps serving). The
  deferred \<^verbatim>\<open>l.Close\<close> runs when \<^verbatim>\<open>run\<close> returns after the listener was obtained.
\<close>

definition run :: "world \<Rightarrow> config \<Rightarrow> event list \<times> event list \<times> error option" where
  "run w cfg =
     (if \<not> config.TLS cfg then
        ([log_Printf (''listening for http at '' @ ListenAddress cfg),
          http_ListenAndServe (ListenAddress cfg) the_handler],
         [],
         ListenAndServe_result w (ListenAddress cfg))
      else
        (case Listen_result w (ListenAddress cfg) of
           Some err \<Rightarrow> ([net_Listen (ListenAddress cfg)], [], Some err)
         | None \<Rightarrow>
             (let l = ListenAddress cfg;
                  spawned =
                    http_Serve l the_redirectHTTP #
                    (case Serve_result w l of
                       Some err \<Rightarrow> [log_Printf (''error starting http listener: '' @ err @ ''\<newline>'')]
                     | None \<Rightarrow> []);
                  (served, result) = serveHTTPS w cfg;
                  deferred =
                    (case result of
                       None \<Rightarrow> []
                     | Some e \<Rightarrow>
                         l_Close l #
                         (case Close_result w l of
                            Some err \<Rightarrow> [log_Printf (''error closing http listener: '' @ err @ ''\<newline>'')]
                          | None \<Rightarrow> []))
              in ([net_Listen l, log_Printf (''listening for http at '' @ ListenAddress cfg)]
                    @ served @ deferred,
                  spawned,
                  result))))"

text \<open>
  \<^verbatim>\<open>main\<close>: \<^verbatim>\<open>app.Run\<close> calls \<^verbatim>\<open>setup\<close> (the \<^verbatim>\<open>Before\<close> hook) and, only if that returned
  \<^verbatim>\<open>nil\<close>, \<^verbatim>\<open>run\<close> (the \<^verbatim>\<open>Action\<close>); an error of either reaches \<^verbatim>\<open>log.Fatal\<close>.
\<close>

datatype exit = Fatal error | Serving

definition main :: "world \<Rightarrow> flags \<Rightarrow> event list \<times> event list \<times> exit" where
  "main w c =
     (let (before, cfg, err) = setup' w c
      in case err of
           Some e \<Rightarrow> (before, [], Fatal e)
         | None \<Rightarrow>
             (let (action, spawned, result) = run w cfg
              in (before @ action, spawned,
                  case result of Some e \<Rightarrow> Fatal e | None \<Rightarrow> Serving)))"

text \<open>Kinds of calls: those of the certificate manager, and those that start a listener.\<close>

fun is_manager_call :: "event \<Rightarrow> bool" where
  "is_manager_call (manager_CacheFile p) = True"
| "is_manager_call (manager_Register e) = True"
| "is_manager_call ev = False"

fun listener_of :: "event \<Rightarrow> (string \<times> installed) option" where
  "listener_of (http_Serve a h) = Some (a, h)"
| "listener_of (http_ListenAndServe a h) = Some (a, h)"
| "listener_of (srv_ListenAndServeTLS a h) = Some (a, h)"
| "listener_of ev = None"

fun binds :: "event \<Rightarrow> string option" where
  "binds (net_Listen a) = Some a"
| "binds (http_ListenAndServe a h) = Some a"
| "binds (srv_ListenAndServeTLS a h) = Some a"
| "binds ev = None"

section \<open>Sample inputs\<close>

text \<open>
  The configuration of the specification's example, and a plaintext GET request for a
  path and a raw query as a Go server hands it to a handler.
\<close>

definition example_config :: config where
  "example_config =
     \<lparr>ImportPrefix = ''example.com'', VCS = ''git'', RepoRoot = ''https://github.com/me'',
      RedirectURL = [], ListenAddress = ''[::1]:80'', TLSListenAddress = ''[::1]:443'',
      PublicTLSAddress = ''example.com'', TLS = True\<rparr>"

definition GET :: "string \<Rightarrow> string \<Rightarrow> request" where
  "GET path query =
     \<lparr>Method = ''GET'',
      URL = \<lparr>Scheme = [], Opaque = [], User = None, Host = [], Path = path, RawPath = [],
             RawQuery = query, Fragment = []\<rparr>,
      Host = ''example.com'', TLS = None\<rparr>"

text \<open>
  The flags at their defaults, with the example's prefix and repository root, and a world in
  which no call fails: the certificate manager succeeds, the listeners bind and serve
  without end.
\<close>

definition example_flags :: flags where
  "example_flags =
     \<lparr>import_prefix = ''example.com'', vcs = ''git'', repo_root = ''https://github.com/me'',
      redirect_url = [], tls_listen_address = ''[::1]:443'', listen_address = ''[::1]:80'',
      cache_file = ''letsencrypt.cache'', email = [], public_tls_address = ''example.com'',
      no_tls = False\<rparr>"

definition quiet_world :: world where
  "quiet_world =
     \<lparr>CacheFile_result = (\<lambda>p. None), Register_result = (\<lambda>e. None),
      Listen_result = (\<lambda>a. None), Serve_result = (\<lambda>a. None),
      ListenAndServe_result = (\<lambda>a. None), ListenAndServeTLS_result = (\<lambda>a. None),
      Close_result = (\<lambda>a. None)\<rparr>"

section \<open>Facts about the library functions\<close>

lemma Split_nonempty: "strings_Split s sep \<noteq> []"
  by (induction s) (auto split: list.splits)

lemma Split_hd: "hd (strings_Split s sep) = takeWhile (\<lambda>c. c \<noteq> sep) s"
  by (induction s) (auto split: list.splits simp: Split_nonempty)

lemma Split_length: "(Suc 0 < length (strings_Split s sep)) = (sep \<in> set s)"
  by (induction s) (auto split: list.splits simp: Split_nonempty)

lemma Split_tl: "tl (strings_Split s sep) = (if sep \<in> set s then strings_Split (tl (dropWhile (\<lambda>c. c \<noteq> sep) s)) sep else [])"
  by (induction s) (auto split: list.splits simp: Split_nonempty)

lemma Split_second:
  assumes "sep \<in> set s"
  shows "strings_Split s sep ! 1 = takeWhile (\<lambda>c. c \<noteq> sep) (tl (dropWhile (\<lambda>c. c \<noteq> sep) s))"
proof -
  have "strings_Split s sep ! 1 = hd (tl (strings_Split s sep))"
    using assms Split_length [of s sep]
    by (cases "strings_Split s sep"; cases "tl (strings_Split s sep)") auto
  then show ?thesis
    using assms by (simp add: Split_tl Split_hd)
qed

lemma ctx_fields:
  "ImportPrefix (handler_context cfg r) = ImportPrefix cfg"
  "VCS (handler_context cfg r) = VCS cfg"
  "RepoRoot (handler_context cfg r) = RepoRoot cfg"
  by (simp_all add: handler_context_def Let_def config.extend_def context'.fields_def)

lemma ctx_RepoName:
  "RepoName (handler_context cfg r) =
     (if CHR ''/'' \<in> set (Path (URL r)) then strings_Split (Path (URL r)) (CHR ''/'') ! 1 else [])"
  by (simp add: handler_context_def Let_def config.extend_def context'.fields_def Split_length)


lemma body_eq:
  "response_body (handler cfg r) =
     text_head @ attrEscaper (ImportPrefix cfg) @ ''/'' @ attrEscaper (RepoName (handler_context cfg r))
       @ '' '' @ attrEscaper (VCS cfg) @ '' '' @ attrEscaper (RepoRoot cfg) @ ''/''
       @ attrEscaper (RepoName (handler_context cfg r))
       @ text_refresh @ attrEscaper (context'.RedirectURL (handler_context cfg r))
       @ text_link @ attrEscaper (urlNormalizer (urlFilter (context'.RedirectURL (handler_context cfg r))))
       @ text_tail"
  by (simp add: handler_def ExecuteTemplate_def tpl_def ctx_fields)


lemma table_no_quote: "CHR 0x22 \<notin> set (htmlReplacementTable c)"
  by (simp add: htmlReplacementTable_def)

lemma table_quote: "htmlReplacementTable (CHR 0x22) \<noteq> []"
  by (simp add: htmlReplacementTable_def)

lemma attrEscaper_no_quote: "CHR 0x22 \<notin> set (attrEscaper s)"
  by (induction s) (auto simp: attrEscaper_def htmlReplacer_def table_no_quote table_quote)

lemma attr_value_app: "CHR 0x22 \<notin> set xs \<Longrightarrow> attr_value (xs @ CHR 0x22 # ys) = xs"
  by (induction xs) (auto simp: attr_value_def)



lemma htmlSpecial_table: "htmlSpecial c = (htmlReplacementTable c \<noteq> [])"
  by (simp add: htmlSpecial_def htmlReplacementTable_def)

lemma attrEscaper_Nil: "attrEscaper [] = []"
  by (simp add: attrEscaper_def htmlReplacer_def)

lemma attrEscaper_Cons:
  "attrEscaper (c # cs) = (if htmlSpecial c then htmlReplacementTable c else [c]) @ attrEscaper cs"
  by (simp add: attrEscaper_def htmlReplacer_def htmlSpecial_table)



lemma attrEscaper_plain: "htmlPlain s \<Longrightarrow> attrEscaper s = s"
  by (induction s) (auto simp: attrEscaper_Nil attrEscaper_Cons htmlPlain_def)





lemma text_refresh_quote: "text_refresh = CHR 0x22 # tl text_refresh"
  by (simp add: text_refresh_def refresh_open_def)



lemma read_go_import:
  "go_import_content (response_body (handler cfg r)) =
     attrEscaper (ImportPrefix cfg) @ ''/'' @ attrEscaper (RepoName (handler_context cfg r))
       @ '' '' @ attrEscaper (VCS cfg) @ '' '' @ attrEscaper (RepoRoot cfg) @ ''/''
       @ attrEscaper (RepoName (handler_context cfg r))"
proof -
  let ?C = "attrEscaper (ImportPrefix cfg) @ ''/'' @ attrEscaper (RepoName (handler_context cfg r))
       @ '' '' @ attrEscaper (VCS cfg) @ '' '' @ attrEscaper (RepoRoot cfg) @ ''/''
       @ attrEscaper (RepoName (handler_context cfg r))"
  have nq: "CHR 0x22 \<notin> set ?C" by (simp add: attrEscaper_no_quote)
  obtain rest where "response_body (handler cfg r) = text_head @ ?C @ CHR 0x22 # rest"
    using text_refresh_quote by (metis body_eq append.assoc append_Cons)
  then show ?thesis
    using attr_value_app [OF nq] by (simp add: go_import_content_def)
qed
























lemma Split_first_segment:
  assumes "CHR ''/'' \<notin> set pkg" "rest = [] \<or> hd rest = CHR ''/''"
  shows "strings_Split (''/'' @ pkg @ rest) (CHR ''/'') ! 1 = pkg"
proof -
  have "takeWhile (\<lambda>c. c \<noteq> CHR ''/'') (pkg @ rest) = pkg"
    using assms by (cases rest) (auto simp: takeWhile_append)
  then show ?thesis
    using Split_second [of "CHR ''/''" "''/'' @ pkg @ rest"] by simp
qed

lemma example_fields:
  "ImportPrefix example_config = ''example.com''"
  "VCS example_config = ''git''"
  "RepoRoot example_config = ''https://github.com/me''"
  "config.RedirectURL example_config = []"
  "PublicTLSAddress example_config = ''example.com''"
  "ListenAddress example_config = ''[::1]:80''"
  "TLSListenAddress example_config = ''[::1]:443''"
  "config.TLS example_config = True"
  by (simp_all add: example_config_def)

lemma GET_fields:
  "Path (URL (GET p q)) = p"
  "RawQuery (URL (GET p q)) = q"
  "request.Host (GET p q) = ''example.com''"
  "request.TLS (GET p q) = None"
  by (simp_all add: GET_def)

lemmas escape_eval = attrEscaper_Cons attrEscaper_Nil htmlSpecial_def htmlReplacementTable_def



lemmas startup_defs = main_def setup'_def run_def serveHTTPS_def Let_def

lemma example_flags_fields:
  "import_prefix example_flags = ''example.com''"
  "vcs example_flags = ''git''"
  "repo_root example_flags = ''https://github.com/me''"
  "redirect_url example_flags = []"
  "tls_listen_address example_flags = ''[::1]:443''"
  "listen_address example_flags = ''[::1]:80''"
  "cache_file example_flags = ''letsencrypt.cache''"
  "email example_flags = []"
  "public_tls_address example_flags = ''example.com''"
  "no_tls example_flags = False"
  by (simp_all add: example_flags_def)

lemma quiet_world_fields:
  "CacheFile_result quiet_world = (\<lambda>p. None)"
  "Register_result quiet_world = (\<lambda>e. None)"
  "Listen_result quiet_world = (\<lambda>a. None)"
  "Serve_result quiet_world = (\<lambda>a. None)"
  "ListenAndServe_result quiet_world = (\<lambda>a. None)"
  "ListenAndServeTLS_result quiet_world = (\<lambda>a. None)"
  "Close_result quiet_world = (\<lambda>a. None)"
  by (simp_all add: quiet_world_def)

section \<open>The claims\<close>

text \<open>
  C1, as stated, fails where a value holds a byte the attribute escaper replaces: for the
  path \<^verbatim>\<open>/a+b/sub\<close> the package is \<^verbatim>\<open>a+b\<close>, and the content of the go-import tag holds
  \<^verbatim>\<open>a&#43;b\<close>, not \<^verbatim>\<open>a+b\<close>.
\<close>

theorem C1_counterexample:
  "go_import_content (response_body (handler example_config (GET ''/a+b/sub'' [])))
     = ''example.com/a&#43;b git https://github.com/me/a&#43;b''
   \<and> go_import_content (response_body (handler example_config (GET ''/a+b/sub'' [])))
     \<noteq> ''example.com/a+b git https://github.com/me/a+b''"
  using Split_first_segment [of "''a+b''" "''/sub''"]
  by (simp add: read_go_import ctx_RepoName GET_fields example_fields escape_eval)

text \<open>
  C1 (amended). For a path \<^verbatim>\<open>/<pkg>/...\<close> with a non-empty first segment and a
  configuration without a redirect override, the content of the go-import tag is
  \<^verbatim>\<open><ImportPrefix>/<pkg> <VCS> <RepoRoot>/<pkg>\<close> with each of the four values passed
  through the attribute escaper; it is that string itself when none of the four values
  holds one of the bytes NUL, double quote, ampersand, single quote, plus, less-than,
  greater-than.
\<close>

theorem C1_go_import_content:
  assumes "Path (URL r) = ''/'' @ pkg @ rest"
    and "pkg \<noteq> []"
    and "CHR ''/'' \<notin> set pkg"
    and "rest = [] \<or> hd rest = CHR ''/''"
    and "config.RedirectURL cfg = []"
  shows "go_import_content (response_body (handler cfg r)) =
           attrEscaper (ImportPrefix cfg) @ ''/'' @ attrEscaper pkg @ '' '' @ attrEscaper (VCS cfg)
             @ '' '' @ attrEscaper (RepoRoot cfg) @ ''/'' @ attrEscaper pkg
         \<and> (htmlPlain (ImportPrefix cfg) \<and> htmlPlain pkg \<and> htmlPlain (VCS cfg) \<and> htmlPlain (RepoRoot cfg)
              \<longrightarrow> go_import_content (response_body (handler cfg r)) =
                    ImportPrefix cfg @ ''/'' @ pkg @ '' '' @ VCS cfg @ '' '' @ RepoRoot cfg @ ''/'' @ pkg)"
proof -
  have "RepoName (handler_context cfg r) = pkg"
    using assms(1) Split_first_segment [OF assms(3) assms(4)] by (simp add: ctx_RepoName)
  then have esc: "go_import_content (response_body (handler cfg r)) =
           attrEscaper (ImportPrefix cfg) @ ''/'' @ attrEscaper pkg @ '' '' @ attrEscaper (VCS cfg)
             @ '' '' @ attrEscaper (RepoRoot cfg) @ ''/'' @ attrEscaper pkg"
    by (simp add: read_go_import)
  show ?thesis
    unfolding esc by (simp add: attrEscaper_plain)
qed

text \<open>The specification's example, with a longer path.\<close>

theorem C1_go_import_content_witness:
  "Path (URL (GET ''/foo/bar'' [])) = ''/'' @ ''foo'' @ ''/bar''
   \<and> ''foo'' \<noteq> [] \<and> CHR ''/'' \<notin> set ''foo'' \<and> hd ''/bar'' = CHR ''/''
   \<and> config.RedirectURL example_config = []
   \<and> htmlPlain (ImportPrefix example_config) \<and> htmlPlain ''foo'' \<and> htmlPlain (VCS example_config)
   \<and> htmlPlain (RepoRoot example_config)
   \<and> go_import_content (response_body (handler example_config (GET ''/foo/bar'' []))) =
        ''example.com/foo git https://github.com/me/foo''"
  using C1_go_import_content [of "GET ''/foo/bar'' []" "''foo''" "''/bar''" example_config]
  by (simp add: GET_fields example_fields htmlPlain_def escape_eval)



text \<open>
  C3. For a request that arrived over TLS, or whose host is empty, the redirect handler
  calls \<^verbatim>\<open>http.Error\<close> with ``not found'' and 404, and then, having not returned, calls
  \<^verbatim>\<open>http.Redirect\<close> exactly as for any other request; the status sent is the 404.
\<close>

theorem C3_not_found_falls_through:
  assumes "request.TLS r \<noteq> None \<or> request.Host r = []"
  shows "redirectHTTP URL_String cfg r =
           [http_Error ''not found'' 404,
            http_Redirect (URL_String ((URL r)\<lparr>url.Host := PublicTLSAddress cfg, Scheme := ''https''\<rparr>)) 302]
       \<and> response_status (redirectHTTP URL_String cfg r) = 404"
  using assms by (auto simp: redirectHTTP_def Let_def)

text \<open>An empty host, and a request marked as TLS.\<close>

theorem C3_not_found_falls_through_witness:
  "request.Host ((GET ''/foo'' ''x=1'')\<lparr>request.Host := []\<rparr>) = []
   \<and> redirectHTTP (\<lambda>u. Scheme u @ ''://'' @ url.Host u @ Path u @ ''?'' @ RawQuery u)
        example_config ((GET ''/foo'' ''x=1'')\<lparr>request.Host := []\<rparr>)
      = [http_Error ''not found'' 404, http_Redirect ''https://example.com/foo?x=1'' 302]
   \<and> response_status (redirectHTTP (\<lambda>u. Scheme u @ ''://'' @ url.Host u @ Path u @ ''?'' @ RawQuery u)
        example_config ((GET ''/foo'' ''x=1'')\<lparr>request.TLS := Some 0\<rparr>)) = 404"
  using C3_not_found_falls_through [of "(GET ''/foo'' ''x=1'')\<lparr>request.Host := []\<rparr>"
      "\<lambda>u. Scheme u @ ''://'' @ url.Host u @ Path u @ ''?'' @ RawQuery u" example_config]
    C3_not_found_falls_through [of "(GET ''/foo'' ''x=1'')\<lparr>request.TLS := Some 0\<rparr>"
      "\<lambda>u. Scheme u @ ''://'' @ url.Host u @ Path u @ ''?'' @ RawQuery u" example_config]
  by (simp add: GET_def example_fields)

text \<open>
  C4, as stated, fails for the bind: in TLS mode, when \<^verbatim>\<open>net.Listen\<close> on the plaintext
  address fails, \<^verbatim>\<open>run\<close> returns that error, the process ends in \<^verbatim>\<open>log.Fatal\<close>, and the
  TLS listener is never started.
\<close>

theorem C4_counterexample:
  "main (quiet_world\<lparr>Listen_result := (\<lambda>a. Some ''bind: address already in use'')\<rparr>) example_flags
     = ([manager_CacheFile ''letsencrypt.cache'', net_Listen ''[::1]:80''], [],
        Fatal ''bind: address already in use'')"
  by (simp add: startup_defs example_flags_fields quiet_world_fields)

text \<open>
  C4 (amended). In TLS mode, once the plaintext listener is bound, what \<^verbatim>\<open>run\<close> returns is
  what the TLS listener returns: a failure of \<^verbatim>\<open>http.Serve\<close> on the plaintext listener is
  logged in its own goroutine and changes neither the calls of the main goroutine nor
  its result. A failure to bind the plaintext listener is returned by \<^verbatim>\<open>run\<close> at once.
  Whatever \<^verbatim>\<open>run\<close> returns is fatal in \<^verbatim>\<open>main\<close>.
\<close>

theorem C4_plaintext_listener_failure:
  assumes "config.TLS cfg"
  shows "(Listen_result w (ListenAddress cfg) = None \<longrightarrow>
            snd (snd (run w cfg)) = ListenAndServeTLS_result w (TLSListenAddress cfg)
          \<and> fst (snd (run w cfg)) =
              http_Serve (ListenAddress cfg) the_redirectHTTP #
              (case Serve_result w (ListenAddress cfg) of
                 Some err \<Rightarrow> [log_Printf (''error starting http listener: '' @ err @ ''\<newline>'')]
               | None \<Rightarrow> [])
          \<and> srv_ListenAndServeTLS (TLSListenAddress cfg) the_handler \<in> set (fst (run w cfg))
          \<and> (\<forall>s. fst (run (w\<lparr>Serve_result := s\<rparr>) cfg) = fst (run w cfg)
                \<and> snd (snd (run (w\<lparr>Serve_result := s\<rparr>) cfg)) = snd (snd (run w cfg))))
       \<and> (\<forall>e. Listen_result w (ListenAddress cfg) = Some e \<longrightarrow>
               run w cfg = ([net_Listen (ListenAddress cfg)], [], Some e))
       \<and> (\<forall>c. snd (snd (setup' w c)) = None \<and> fst (snd (setup' w c)) = cfg \<longrightarrow>
               snd (snd (main w c)) =
                 (case snd (snd (run w cfg)) of Some e \<Rightarrow> Fatal e | None \<Rightarrow> Serving))"
proof -
  have a: "Listen_result w (ListenAddress cfg) = None \<longrightarrow>
            snd (snd (run w cfg)) = ListenAndServeTLS_result w (TLSListenAddress cfg)
          \<and> fst (snd (run w cfg)) =
              http_Serve (ListenAddress cfg) the_redirectHTTP #
              (case Serve_result w (ListenAddress cfg) of
                 Some err \<Rightarrow> [log_Printf (''error starting http listener: '' @ err @ ''\<newline>'')]
               | None \<Rightarrow> [])
          \<and> srv_ListenAndServeTLS (TLSListenAddress cfg) the_handler \<in> set (fst (run w cfg))"
    using assms by (simp add: run_def serveHTTPS_def Let_def)
  have b: "Listen_result w (ListenAddress cfg) = None \<longrightarrow>
          (\<forall>s. fst (run (w\<lparr>Serve_result := s\<rparr>) cfg) = fst (run w cfg)
                \<and> snd (snd (run (w\<lparr>Serve_result := s\<rparr>) cfg)) = snd (snd (run w cfg)))"
    using assms by (simp add: run_def serveHTTPS_def Let_def split: option.splits)
  have c: "\<forall>e. Listen_result w (ListenAddress cfg) = Some e \<longrightarrow>
               run w cfg = ([net_Listen (ListenAddress cfg)], [], Some e)"
    using assms by (simp add: run_def)
  have d: "\<forall>c. snd (snd (setup' w c)) = None \<and> fst (snd (setup' w c)) = cfg \<longrightarrow>
               snd (snd (main w c)) =
                 (case snd (snd (run w cfg)) of Some e \<Rightarrow> Fatal e | None \<Rightarrow> Serving)"
    by (auto simp: main_def Let_def split: prod.splits option.splits)
  show ?thesis using a b c d by blast
qed

text \<open>
  A world where serving plaintext fails (the process keeps serving), and one where the
  TLS listener fails (fatal).
\<close>

theorem C4_plaintext_listener_failure_witness:
  "config.TLS example_config
   \<and> Listen_result (quiet_world\<lparr>Serve_result := (\<lambda>a. Some ''accept failed'')\<rparr>)
        (ListenAddress example_config) = None
   \<and> run (quiet_world\<lparr>Serve_result := (\<lambda>a. Some ''accept failed'')\<rparr>) example_config
      = ([net_Listen ''[::1]:80'', log_Printf ''listening for http at [::1]:80'',
          log_Printf ''listening for tls at [::1]:443'',
          srv_ListenAndServeTLS ''[::1]:443'' the_handler],
         [http_Serve ''[::1]:80'' the_redirectHTTP,
          log_Printf ''error starting http listener: accept failed\<newline>''],
         None)
   \<and> snd (snd (main (quiet_world\<lparr>Serve_result := (\<lambda>a. Some ''accept failed'')\<rparr>) example_flags))
      = Serving
   \<and> snd (snd (main (quiet_world\<lparr>ListenAndServeTLS_result := (\<lambda>a. Some ''tls bind failed'')\<rparr>) example_flags))
      = Fatal ''tls bind failed''"
  using C4_plaintext_listener_failure [of example_config
      "quiet_world\<lparr>Serve_result := (\<lambda>a. Some ''accept failed'')\<rparr>"]
    C4_plaintext_listener_failure [of example_config
      "quiet_world\<lparr>ListenAndServeTLS_result := (\<lambda>a. Some ''tls bind failed'')\<rparr>"]
  by (simp add: startup_defs example_fields example_flags_fields quiet_world_fields)







text \<open>
  C7. The package name is found by splitting the request path at the slashes: it is the
  piece after the first slash, up to the next one (and empty when the path has no slash).
  For the root request \<^verbatim>\<open>/\<close> the package name is empty, and the document is rendered all
  the same, with status 200 and a go-import content whose package part is empty.
\<close>

theorem C7_package_name:
  "RepoName (handler_context cfg r) =
     (if CHR ''/'' \<in> set (Path (URL r))
      then takeWhile (\<lambda>c. c \<noteq> CHR ''/'') (tl (dropWhile (\<lambda>c. c \<noteq> CHR ''/'') (Path (URL r))))
      else [])
   \<and> (Path (URL r) = ''/'' \<longrightarrow>
        RepoName (handler_context cfg r) = []
        \<and> go_import_content (response_body (handler cfg r)) =
            attrEscaper (ImportPrefix cfg) @ ''/ '' @ attrEscaper (VCS cfg) @ '' ''
              @ attrEscaper (RepoRoot cfg) @ ''/''
        \<and> response_status (handler cfg r) = 200)"
proof -
  have name: "RepoName (handler_context cfg r) =
     (if CHR ''/'' \<in> set (Path (URL r))
      then takeWhile (\<lambda>c. c \<noteq> CHR ''/'') (tl (dropWhile (\<lambda>c. c \<noteq> CHR ''/'') (Path (URL r))))
      else [])"
    using Split_second [of "CHR ''/''" "Path (URL r)"] by (simp add: ctx_RepoName)
  have status: "response_status (handler cfg r) = 200"
    by (simp add: handler_def ExecuteTemplate_def tpl_def)
  show ?thesis
    using name status by (auto simp: read_go_import attrEscaper_Nil)
qed

text \<open>The root request, and a request below a package.\<close>

theorem C7_package_name_witness:
  "Path (URL (GET ''/'' [])) = ''/''
   \<and> RepoName (handler_context example_config (GET ''/'' [])) = []
   \<and> go_import_content (response_body (handler example_config (GET ''/'' []))) =
        ''example.com/ git https://github.com/me/''
   \<and> RepoName (handler_context example_config (GET ''/foo/bar'' [])) = ''foo''"
  using C7_package_name [of example_config "GET ''/'' []"]
    C7_package_name [of example_config "GET ''/foo/bar'' []"]
  by (simp add: GET_fields example_fields escape_eval)

text \<open>
  C8. Without TLS, \<^verbatim>\<open>setup\<close> calls nothing and succeeds. With TLS, it first opens the
  certificate cache, and an error there ends the process with nothing else called; it
  then registers the account exactly when the email is non-empty, and an error there ends
  the process as well. All calls of \<^verbatim>\<open>setup\<close> are calls of the certificate manager, they
  come first in the process, and \<^verbatim>\<open>run\<close>, which starts the listeners, makes none.
\<close>

theorem C8_startup:
  "(no_tls c \<longrightarrow> fst (setup' w c) = [] \<and> snd (snd (setup' w c)) = None)
   \<and> (\<not> no_tls c \<longrightarrow>
        (\<forall>e. CacheFile_result w (cache_file c) = Some e \<longrightarrow>
               main w c = ([manager_CacheFile (cache_file c)], [], Fatal e))
        \<and> (CacheFile_result w (cache_file c) = None \<longrightarrow>
             fst (setup' w c) =
               (if email c = [] then [manager_CacheFile (cache_file c)]
                else [manager_CacheFile (cache_file c), manager_Register (email c)])
             \<and> (\<forall>e. email c \<noteq> [] \<and> Register_result w (email c) = Some e \<longrightarrow>
                    main w c =
                      ([manager_CacheFile (cache_file c), manager_Register (email c)], [], Fatal e))))
   \<and> (\<forall>ev \<in> set (fst (setup' w c)). is_manager_call ev)
   \<and> fst (main w c) =
        fst (setup' w c)
          @ (if snd (snd (setup' w c)) = None then fst (run w (fst (snd (setup' w c)))) else [])
   \<and> (\<forall>ev \<in> set (fst (run w cfg)) \<union> set (fst (snd (run w cfg))). \<not> is_manager_call ev)"
proof -
  have a: "no_tls c \<longrightarrow> fst (setup' w c) = [] \<and> snd (snd (setup' w c)) = None"
    by (simp add: setup'_def Let_def)
  have b: "\<not> no_tls c \<longrightarrow>
        (\<forall>e. CacheFile_result w (cache_file c) = Some e \<longrightarrow>
               main w c = ([manager_CacheFile (cache_file c)], [], Fatal e))"
    by (simp add: main_def setup'_def Let_def)
  have c: "\<not> no_tls c \<longrightarrow> CacheFile_result w (cache_file c) = None \<longrightarrow>
             fst (setup' w c) =
               (if email c = [] then [manager_CacheFile (cache_file c)]
                else [manager_CacheFile (cache_file c), manager_Register (email c)])"
    by (simp add: setup'_def Let_def split: option.splits)
  have d: "\<not> no_tls c \<longrightarrow> CacheFile_result w (cache_file c) = None \<longrightarrow>
             (\<forall>e. email c \<noteq> [] \<and> Register_result w (email c) = Some e \<longrightarrow>
                    main w c =
                      ([manager_CacheFile (cache_file c), manager_Register (email c)], [], Fatal e))"
    by (simp add: main_def setup'_def Let_def)
  have e: "\<forall>ev \<in> set (fst (setup' w c)). is_manager_call ev"
    by (simp add: setup'_def Let_def split: option.splits)
  have f: "fst (main w c) =
        fst (setup' w c)
          @ (if snd (snd (setup' w c)) = None then fst (run w (fst (snd (setup' w c)))) else [])"
    by (simp add: main_def Let_def split: prod.splits option.splits)
  have g: "\<forall>ev \<in> set (fst (run w cfg)) \<union> set (fst (snd (run w cfg))). \<not> is_manager_call ev"
    by (auto simp: run_def serveHTTPS_def Let_def split: option.splits)
  show ?thesis using a b c d e f g by blast
qed

text \<open>A cache that cannot be opened, a registration that is refused, and plain mode.\<close>

theorem C8_startup_witness:
  "\<not> no_tls example_flags
   \<and> main (quiet_world\<lparr>CacheFile_result := (\<lambda>p. Some ''permission denied'')\<rparr>) example_flags
       = ([manager_CacheFile ''letsencrypt.cache''], [], Fatal ''permission denied'')
   \<and> fst (setup' quiet_world example_flags) = [manager_CacheFile ''letsencrypt.cache'']
   \<and> fst (setup' quiet_world (example_flags\<lparr>email := ''me@example.com''\<rparr>))
       = [manager_CacheFile ''letsencrypt.cache'', manager_Register ''me@example.com'']
   \<and> main (quiet_world\<lparr>Register_result := (\<lambda>p. Some ''registration refused'')\<rparr>)
         (example_flags\<lparr>email := ''me@example.com''\<rparr>)
       = ([manager_CacheFile ''letsencrypt.cache'', manager_Register ''me@example.com''], [],
          Fatal ''registration refused'')
   \<and> no_tls (example_flags\<lparr>no_tls := True\<rparr>)
   \<and> fst (setup' quiet_world (example_flags\<lparr>no_tls := True\<rparr>)) = []"
  using C8_startup [of example_flags "quiet_world\<lparr>CacheFile_result := (\<lambda>p. Some ''permission denied'')\<rparr>"]
    C8_startup [of example_flags quiet_world]
    C8_startup [of "example_flags\<lparr>email := ''me@example.com''\<rparr>" quiet_world]
    C8_startup [of "example_flags\<lparr>email := ''me@example.com''\<rparr>"
      "quiet_world\<lparr>Register_result := (\<lambda>p. Some ''registration refused'')\<rparr>"]
    C8_startup [of "example_flags\<lparr>no_tls := True\<rparr>" quiet_world]
  by (simp add: example_flags_fields quiet_world_fields)

text \<open>
  C9. Without TLS, \<^verbatim>\<open>run\<close> logs and calls \<^verbatim>\<open>http.ListenAndServe\<close> on \<open>ListenAddress\<close> with
  the request handler, and nothing else: one listener, one bound address, no goroutine.
  \<open>TLSListenAddress\<close> is not read (any other value gives the same run), there is no call
  of \<^verbatim>\<open>ListenAndServeTLS\<close>, and the redirect handler is installed nowhere.
\<close>

theorem C9_plain_mode:
  assumes "\<not> config.TLS cfg"
  shows "run w cfg =
           ([log_Printf (''listening for http at '' @ ListenAddress cfg),
             http_ListenAndServe (ListenAddress cfg) the_handler],
            [],
            ListenAndServe_result w (ListenAddress cfg))
       \<and> List.map_filter listener_of (fst (run w cfg) @ fst (snd (run w cfg))) =
           [(ListenAddress cfg, the_handler)]
       \<and> List.map_filter binds (fst (run w cfg) @ fst (snd (run w cfg))) = [ListenAddress cfg]
       \<and> (\<forall>a. run w (cfg\<lparr>TLSListenAddress := a\<rparr>) = run w cfg)
       \<and> (\<forall>a h. srv_ListenAndServeTLS a h \<notin> set (fst (run w cfg) @ fst (snd (run w cfg))))
       \<and> (\<forall>a. http_Serve a the_redirectHTTP \<notin> set (fst (run w cfg) @ fst (snd (run w cfg))))"
  using assms by (simp add: run_def)

text \<open>The example configuration with TLS switched off.\<close>

theorem C9_plain_mode_witness:
  "\<not> config.TLS (example_config\<lparr>config.TLS := False\<rparr>)
   \<and> run quiet_world (example_config\<lparr>config.TLS := False\<rparr>) =
        ([log_Printf ''listening for http at [::1]:80'',
          http_ListenAndServe ''[::1]:80'' the_handler], [], None)
   \<and> List.map_filter binds (fst (run quiet_world (example_config\<lparr>config.TLS := False\<rparr>))
        @ fst (snd (run quiet_world (example_config\<lparr>config.TLS := False\<rparr>)))) = [''[::1]:80'']"
  using C9_plain_mode [of "example_config\<lparr>config.TLS := False\<rparr>" quiet_world]
  by (simp add: example_fields quiet_world_fields)



end
